theory Spec2Isabelle
  imports Complex_Main
begin

section \<open>The recoil drill of CanvasDrill.jsx\<close>

text \<open>
  The component keeps its simulation state in React refs and three pieces of React
  state (\<open>running\<close>, \<open>countdown\<close>, \<open>timeLeft\<close>). The embedding collects all of them
  in one record that every handler takes and returns. JavaScript numbers are idealised
  as reals; counters and array lengths are naturals. Where the code's result turns on
  which side of a boundary a double falls, and the exact value lies on that boundary
  (a decimal midpoint in \<open>toFixed\<close>, an age of exactly one second in the click
  window), the side is an argument of the model. The two callbacks passed in by the
  parent (\<open>onClickUpdate\<close>, \<open>onSessionEnd\<close>) are modelled by the list of payloads they
  have received so far. Drawing on the canvas has no effect on the state and is left out.
\<close>

subsection \<open>Numeric helpers\<close>

definition clamp :: "real \<Rightarrow> real \<Rightarrow> real \<Rightarrow> real" where
  \<comment> \<open>\<open>Math.min(b, Math.max(a, v))\<close>\<close>
  "clamp v a b = min b (max a v)"

definition mathRound :: "real \<Rightarrow> int" where
  \<comment> \<open>\<open>Math.round\<close>: nearest integer, a tie goes up\<close>
  "mathRound x = \<lfloor>x + 1 / 2\<rfloor>"

definition toFixed :: "bool \<Rightarrow> nat \<Rightarrow> real \<Rightarrow> real" where
  \<comment> \<open>\<open>Number(x.toFixed(d))\<close>: the sign is split off and the magnitude is rounded to the
      nearest multiple of \<open>10^-d\<close>. The code rounds the double it has computed, which
      approximates the exact value \<open>x\<close>: where \<open>x\<close> lies halfway between two
      multiples, that double lies on or above the midpoint (the larger multiple is
      taken) or just below it (the smaller one). \<open>up\<close> says which; away from a
      midpoint it plays no role.\<close>
  "toFixed up d x =
     (let m = \<bar>x\<bar> * 10 ^ d;
          n = (if m - of_int \<lfloor>m\<rfloor> = 1 / 2 \<and> \<not> up then \<lfloor>m\<rfloor> else \<lfloor>m + 1 / 2\<rfloor>)
      in if x < 0 then - (of_int n / 10 ^ d) else of_int n / 10 ^ d)"

definition hypot :: "real \<Rightarrow> real \<Rightarrow> real" where
  "hypot a b = sqrt (a * a + b * b)"

definition jsdiv :: "real \<Rightarrow> real \<Rightarrow> real option" where
  \<comment> \<open>A division whose denominator is zero yields \<open>Infinity\<close> or \<open>NaN\<close> in JavaScript;
      the model records that outcome as \<open>None\<close>.\<close>
  "jsdiv a b = (if b = 0 then None else Some (a / b))"

subsection \<open>Settings, payloads and the component state\<close>

record settings =
  countdownSec :: real
  durationSec :: real
  startGraceMs :: real
  deadZoneY :: real
  recoilSpeed :: real
  recoilJitter :: real
  compensationGain :: real
  targetRadius :: real
  showPath :: bool
  showHeatmap :: bool
  crosshairSize :: real
  cursorMode :: string

definition DEFAULT_SETTINGS :: settings where
  "DEFAULT_SETTINGS =
     \<lparr> countdownSec = 3, durationSec = 30, startGraceMs = 250, deadZoneY = 1 / 2,
       recoilSpeed = 220, recoilJitter = 12, compensationGain = 1, targetRadius = 22,
       showPath = True, showHeatmap = True, crosshairSize = 16, cursorMode = ''fixed'' \<rparr>"

datatype summaryField = AvgErrorField | HitRateField | AvgCpsField

record summary =
  endedAt :: string
  summaryDurationSec :: real
  avgError :: real
  hitRate :: real
  shots :: nat
  avgCps :: real

record clickState =
  csL :: bool
  csM :: bool
  csR :: bool
  cps :: nat
  countsLeft :: nat
  countsMid :: nat
  countsRight :: nat

record drill =
  size_w :: real
  size_h :: real
  aimRef :: "real \<times> real"
  target :: "real \<times> real"
  lastMouseDy :: real
  errorHistory :: "real list"
  pathPoints :: "(real \<times> real) list"
  leftCount :: nat
  midCount :: nat
  rightCount :: nat
  lTimestamps :: "real list"
  buttonL :: bool
  buttonM :: bool
  buttonR :: bool
  rafScheduled :: bool
  startedAtMs :: real
  countdownStartMs :: real
  sessionEndAtMs :: real
  lastSecondShown :: int
  running :: bool
  countdown :: real
  timeLeft :: real
  pendingEnd :: nat
  clickUpdates :: "clickState list"
  sessionEnds :: "summary option list"

text \<open>
  \<open>rafScheduled\<close> stands for \<open>rafId.current \<noteq> 0\<close>; \<open>pendingEnd\<close> counts the
  \<open>setTimeout(endSession, 0)\<close> calls that have not fired yet. An entry of
  \<open>sessionEnds\<close> is \<open>None\<close> when a field of the summary would not be a finite number.
\<close>

definition mounted :: "real \<Rightarrow> real \<Rightarrow> drill" where
  \<comment> \<open>the refs and state as \<open>useRef\<close>/\<open>useState\<close> initialise them, after the resize
      observer has measured the canvas\<close>
  "mounted w h =
     \<lparr> size_w = w, size_h = h, aimRef = (w / 2, h / 2), target = (0, 0), lastMouseDy = 0,
       errorHistory = [], pathPoints = [], leftCount = 0, midCount = 0, rightCount = 0,
       lTimestamps = [], buttonL = False, buttonM = False, buttonR = False,
       rafScheduled = False, startedAtMs = 0, countdownStartMs = 0, sessionEndAtMs = 0,
       lastSecondShown = - 1, running = False, countdown = 0, timeLeft = 0,
       pendingEnd = 0, clickUpdates = [], sessionEnds = [] \<rparr>"

subsection \<open>Pointer events\<close>


definition onMouseUp :: "nat \<Rightarrow> drill \<Rightarrow> drill" where
  "onMouseUp button s =
     (let s1 = (if button = 0 then s\<lparr>buttonL := False\<rparr> else s);
          s2 = (if button = 1 then s1\<lparr>buttonM := False\<rparr> else s1)
      in (if button = 2 then s2\<lparr>buttonR := False\<rparr> else s2))"

definition onMouseMove ::
  "settings \<Rightarrow> bool \<Rightarrow> real \<Rightarrow> real \<Rightarrow> real \<Rightarrow> real \<Rightarrow> drill \<Rightarrow> drill" where
  \<comment> \<open>\<open>locked\<close>: the canvas holds the pointer lock; \<open>mx\<close>, \<open>my\<close>: \<open>movementX/Y\<close>;
      \<open>cx\<close>, \<open>cy\<close>: the pointer position relative to the canvas rectangle\<close>
  "onMouseMove setg locked mx my cx cy s =
     (let dy = (if locked then my else 0);
          s1 = s\<lparr>lastMouseDy := dy\<rparr>
      in if cursorMode setg = ''free''
         then (if locked
               then s1\<lparr>aimRef := (clamp (fst (aimRef s1) + mx) 0 (size_w s1),
                                  clamp (snd (aimRef s1) + my) 0 (size_h s1))\<rparr>
               else s1\<lparr>aimRef := (clamp cx 0 (size_w s1), clamp cy 0 (size_h s1))\<rparr>)
         else s1)"

subsection \<open>Starting and ending a session\<close>

definition startSession :: "settings \<Rightarrow> real \<Rightarrow> drill \<Rightarrow> drill" where
  "startSession setg now s =
     s\<lparr> countdownStartMs := now, startedAtMs := 0, sessionEndAtMs := 0,
        countdown := countdownSec setg, timeLeft := durationSec setg,
        lastSecondShown := - 1, running := True,
        errorHistory := [], pathPoints := [],
        leftCount := 0, midCount := 0, rightCount := 0,
        lTimestamps := [], lastMouseDy := 0,
        target := (size_w s / 2, of_int \<lfloor>size_h s * (3 / 4)\<rfloor>),
        aimRef := (size_w s / 2, size_h s / 2) \<rparr>"

definition avgErrorOf :: "real list \<Rightarrow> real option" where
  \<comment> \<open>\<open>errors.length ? errors.reduce((a, b) => a + b, 0) / errors.length : 0\<close>\<close>
  "avgErrorOf errors =
     (if length errors \<noteq> 0 then jsdiv (foldl (+) 0 errors) (real (length errors))
      else Some 0)"

definition approxHitsOf :: "real \<Rightarrow> real list \<Rightarrow> nat \<Rightarrow> int option" where
  "approxHitsOf hitRadius errors n =
     (if n > 0 \<and> length errors > 0
      then (let hitFrames = length (filter (\<lambda>e. e \<le> hitRadius) errors)
            in map_option (\<lambda>q. mathRound (real hitFrames * q))
                 (jsdiv (real n) (real (length errors))))
      else Some 0)"

definition hitRateOf :: "real \<Rightarrow> real list \<Rightarrow> nat \<Rightarrow> real option" where
  \<comment> \<open>\<open>shots ? approxHits / shots : 0\<close>\<close>
  "hitRateOf hitRadius errors n =
     (case approxHitsOf hitRadius errors n of
        None \<Rightarrow> None
      | Some approxHits \<Rightarrow> (if n \<noteq> 0 then jsdiv (of_int approxHits) (real n) else Some 0))"

definition avgCpsOf :: "real list \<Rightarrow> real option" where
  "avgCpsOf ts =
     (if length ts \<ge> 2
      then (let dur = ts ! (length ts - 1) - ts ! 0
            in if dur > 0 then jsdiv (real (length ts)) dur else Some 0)
      else Some 0)"

definition sessionSummary ::
  "(summaryField \<Rightarrow> bool) \<Rightarrow> settings \<Rightarrow> string \<Rightarrow> drill \<Rightarrow> summary option" where
  \<comment> \<open>the record handed to \<open>onSessionEnd\<close>; \<open>wall\<close> is \<open>new Date().toLocaleString()\<close>,
      \<open>side\<close> gives for each rounded field the side of a midpoint its double lies on\<close>
  "sessionSummary side setg wall s =
     (case avgErrorOf (errorHistory s) of None \<Rightarrow> None | Some ae \<Rightarrow>
      (case hitRateOf (targetRadius setg) (errorHistory s) (leftCount s) of None \<Rightarrow> None | Some hr \<Rightarrow>
       (case avgCpsOf (lTimestamps s) of None \<Rightarrow> None | Some ac \<Rightarrow>
          Some \<lparr> endedAt = wall, summaryDurationSec = durationSec setg,
                 avgError = toFixed (side AvgErrorField) 1 ae,
                 hitRate = toFixed (side HitRateField) 1 (hr * 100),
                 shots = leftCount s,
                 avgCps = toFixed (side AvgCpsField) 2 ac \<rparr>)))"

definition endSession ::
  "(summaryField \<Rightarrow> bool) \<Rightarrow> settings \<Rightarrow> string \<Rightarrow> drill \<Rightarrow> drill" where
  "endSession side setg wall s =
     s\<lparr> rafScheduled := False, running := False, countdown := 0,
        sessionEnds := sessionEnds s @ [sessionSummary side setg wall s] \<rparr>"

subsection \<open>Triggers of start and end\<close>

definition onKeySpace ::
  "(summaryField \<Rightarrow> bool) \<Rightarrow> settings \<Rightarrow> real \<Rightarrow> string \<Rightarrow> drill \<Rightarrow> drill" where
  \<comment> \<open>\<open>if (running) endSession(); else startSession();\<close>\<close>
  "onKeySpace side setg now wall s =
     (if running s then endSession side setg wall s else startSession setg now s)"

definition onButtonClick ::
  "(summaryField \<Rightarrow> bool) \<Rightarrow> settings \<Rightarrow> real \<Rightarrow> string \<Rightarrow> drill \<Rightarrow> drill" where
  \<comment> \<open>\<open>onClick={() => (running ? endSession() : startSession())}\<close>\<close>
  "onButtonClick side setg now wall s =
     (if running s then endSession side setg wall s else startSession setg now s)"

definition onVis ::
  "(summaryField \<Rightarrow> bool) \<Rightarrow> settings \<Rightarrow> string \<Rightarrow> bool \<Rightarrow> drill \<Rightarrow> drill" where
  \<comment> \<open>\<open>if (document.hidden && running) endSession();\<close>\<close>
  "onVis side setg wall hidden s = (if hidden \<and> running s then endSession side setg wall s else s)"

definition fireTimeout ::
  "(summaryField \<Rightarrow> bool) \<Rightarrow> settings \<Rightarrow> string \<Rightarrow> drill \<Rightarrow> drill" where
  \<comment> \<open>a pending \<open>setTimeout(endSession, 0)\<close> fires; the timer calls \<open>endSession\<close>
      without looking at \<open>running\<close>\<close>
  "fireTimeout side setg wall s =
     (if pendingEnd s > 0 then endSession side setg wall (s\<lparr>pendingEnd := pendingEnd s - 1\<rparr>)
      else s)"

subsection \<open>One pass of the frame loop\<close>

text \<open>
  \<open>loop\<close> closes over the React state of the render that installed it, so within one
  pass \<open>countdown\<close> is the value before this pass's \<open>setCountdown\<close>; the new value is
  seen from the next pass on. \<open>rnd1\<close> and \<open>rnd2\<close> are the results of the two
  \<open>Math.random()\<close> calls, \<open>surface\<close> says whether both canvases are mounted.
\<close>

definition cdLeftOf :: "settings \<Rightarrow> real \<Rightarrow> drill \<Rightarrow> real" where
  "cdLeftOf setg now s =
     (let cdElapsed = now - countdownStartMs s
      in max 0 (countdownSec setg - of_int \<lfloor>cdElapsed / 1000\<rfloor>))"

definition sessionClock :: "settings \<Rightarrow> real \<Rightarrow> drill \<Rightarrow> drill" where
  "sessionClock setg now s =
     (if countdown s \<le> 0
      then (let s1 = (if startedAtMs s = 0
                      then s\<lparr>startedAtMs := now,
                             sessionEndAtMs := now + durationSec setg * 1000\<rparr>
                      else s);
                msLeft = max 0 (sessionEndAtMs s1 - now);
                secLeftRounded = \<lceil>msLeft / 1000\<rceil>
            in if secLeftRounded \<noteq> lastSecondShown s1
               then (let s2 = s1\<lparr>lastSecondShown := secLeftRounded, timeLeft := msLeft / 1000\<rparr>
                     in if msLeft \<le> 0 then s2\<lparr>pendingEnd := pendingEnd s2 + 1\<rparr> else s2)
               else s1)
      else s)"

definition upPerSec :: "settings \<Rightarrow> real \<Rightarrow> real" where
  "upPerSec setg rnd = recoilSpeed setg + (rnd * 2 - 1) * recoilJitter setg"

definition vyOf :: "settings \<Rightarrow> real \<Rightarrow> real" where
  \<comment> \<open>\<open>dt = 1 / 60; vy = upPerSec * dt\<close>\<close>
  "vyOf setg rnd = upPerSec setg rnd * (1 / 60)"

definition sinceSessionStart :: "settings \<Rightarrow> real \<Rightarrow> drill \<Rightarrow> real" where
  "sinceSessionStart setg now s =
     (if startedAtMs s \<noteq> 0 then now - startedAtMs s
      else (now - countdownStartMs s) - countdownSec setg * 1000)"

definition inGrace :: "settings \<Rightarrow> real \<Rightarrow> drill \<Rightarrow> bool" where
  "inGrace setg now s \<longleftrightarrow> sinceSessionStart setg now s < startGraceMs setg"

definition frameDy :: "settings \<Rightarrow> real \<Rightarrow> drill \<Rightarrow> real" where
  \<comment> \<open>\<open>dy\<close> after the dead-zone line and the grace line\<close>
  "frameDy setg now s =
     (let dy = lastMouseDy s;
          dy1 = (if \<bar>dy\<bar> < deadZoneY setg then 0 else dy)
      in if inGrace setg now s \<and> dy1 > 0 then 0 else dy1)"

definition comp :: "settings \<Rightarrow> real \<Rightarrow> drill \<Rightarrow> real" where
  "comp setg now s =
     (if cursorMode setg = ''fixed'' then frameDy setg now s * compensationGain setg else 0)"

definition recoilStep :: "settings \<Rightarrow> real \<Rightarrow> real \<Rightarrow> drill \<Rightarrow> drill" where
  \<comment> \<open>\<open>target.current.y -= vy; target.current.y += comp;\<close>\<close>
  "recoilStep setg now rnd1 s =
     s\<lparr>target := (fst (target s), snd (target s) - vyOf setg rnd1 + comp setg now s)\<rparr>"

definition wrapTarget :: "settings \<Rightarrow> real \<Rightarrow> drill \<Rightarrow> drill" where
  "wrapTarget setg rnd2 s =
     (if snd (target s) < - targetRadius setg
      then s\<lparr>target := (clamp (fst (target s) + (rnd2 * 200 - 100))
                           (targetRadius setg) (size_w s - targetRadius setg),
                         size_h s + targetRadius setg)\<rparr>
      else s)"

definition moveTarget :: "settings \<Rightarrow> real \<Rightarrow> real \<Rightarrow> real \<Rightarrow> drill \<Rightarrow> drill" where
  "moveTarget setg now rnd1 rnd2 s =
     (if countdown s \<le> 0 then wrapTarget setg rnd2 (recoilStep setg now rnd1 s) else s)"

definition recordPath :: "settings \<Rightarrow> drill \<Rightarrow> drill" where
  "recordPath setg s =
     (if showPath setg
      then (let p = pathPoints s @ [target s]
            in s\<lparr>pathPoints := (if length p > 800 then tl p else p)\<rparr>)
      else s\<lparr>pathPoints := []\<rparr>)"

definition aimPoint :: "settings \<Rightarrow> drill \<Rightarrow> real \<times> real" where
  "aimPoint setg s =
     (if cursorMode setg = ''free'' then fst (aimRef s) else size_w s / 2,
      if cursorMode setg = ''free'' then snd (aimRef s) else size_h s / 2)"

definition frameError :: "settings \<Rightarrow> drill \<Rightarrow> real" where
  "frameError setg s =
     hypot (fst (target s) - fst (aimPoint setg s)) (snd (target s) - snd (aimPoint setg s))"

definition recordError :: "settings \<Rightarrow> drill \<Rightarrow> drill" where
  "recordError setg s =
     (let e = errorHistory s @ [frameError setg s]
      in s\<lparr>errorHistory := (if length e > 300 then tl e else e)\<rparr>)"

definition updateCps :: "(real \<Rightarrow> bool) \<Rightarrow> real \<Rightarrow> drill \<Rightarrow> drill" where
  \<comment> \<open>\<open>filter((t) => nowS - t <= 1)\<close>. The code subtracts doubles: for a click whose
      exact age is one second the computed age may come out as 1 or just above it, so
      the click is kept or dropped. \<open>edge t\<close> says whether such a click \<open>t\<close> is kept;
      for every other age the test is the exact one.\<close>
  "updateCps edge now s =
     (let nowS = now / 1000;
          ts = filter (\<lambda>t. nowS - t < 1 \<or> (nowS - t = 1 \<and> edge t)) (lTimestamps s)
      in s\<lparr>lTimestamps := ts,
           clickUpdates := clickUpdates s @
             [\<lparr>csL = buttonL s, csM = buttonM s, csR = buttonR s, cps = length ts,
               countsLeft = leftCount s, countsMid = midCount s,
               countsRight = rightCount s\<rparr>]\<rparr>)"

definition loop ::
  "(real \<Rightarrow> bool) \<Rightarrow> settings \<Rightarrow> bool \<Rightarrow> real \<Rightarrow> real \<Rightarrow> real \<Rightarrow> drill \<Rightarrow> drill" where
  "loop edge setg surface now rnd1 rnd2 s =
     (if \<not> surface then s\<lparr>rafScheduled := True\<rparr>
      else (let cdLeft = cdLeftOf setg now s;
                s1 = sessionClock setg now s;
                s2 = moveTarget setg now rnd1 rnd2 s1;
                s3 = recordPath setg s2;
                s4 = recordError setg s3;
                s5 = updateCps edge now s4
            in s5\<lparr>countdown := cdLeft, rafScheduled := True\<rparr>))"

subsection \<open>Concrete sessions used as examples\<close>

definition tieUp :: "summaryField \<Rightarrow> bool" where
  "tieUp f = True"

definition tieDown :: "summaryField \<Rightarrow> bool" where
  "tieDown f = False"

definition edgeKept :: "real \<Rightarrow> bool" where
  "edgeKept t = True"

definition quick :: settings where
  \<comment> \<open>the defaults with no countdown and the shortest duration the panel allows\<close>
  "quick = DEFAULT_SETTINGS\<lparr>countdownSec := 0, durationSec := 5\<rparr>"

definition firstFrame :: "real \<Rightarrow> drill" where
  \<comment> \<open>a session started at \<open>t0\<close> ms and its first frame, 16 ms later\<close>
  "firstFrame t0 = loop edgeKept quick True (t0 + 16) (1 / 2) (1 / 2)
                     (startSession quick t0 (mounted 600 400))"

definition timedOut :: drill where
  \<comment> \<open>the frame in which the five seconds are over\<close>
  "timedOut = loop edgeKept quick True 5016 (1 / 2) (1 / 2) (firstFrame 0)"

definition afterMove :: drill where
  \<comment> \<open>one pointer motion of 5 px downwards under pointer lock, after the first frame\<close>
  "afterMove = onMouseMove quick True 0 5 0 0 (firstFrame 1000)"

definition frameWithMove :: drill where
  \<comment> \<open>the frame that follows that motion, 300 ms into the session\<close>
  "frameWithMove = loop edgeKept quick True 1316 (1 / 2) (1 / 2) afterMove"


primrec runFrames ::
  "(real \<Rightarrow> bool) \<Rightarrow> settings \<Rightarrow> (real \<times> real \<times> real) list \<Rightarrow> drill \<Rightarrow> drill" where
  \<comment> \<open>every pass of \<open>loop\<close> requests the next one; a run of passes, one for each
      triple of \<open>performance.now()\<close> and the two random numbers\<close>
  "runFrames edge setg [] s = s"
| "runFrames edge setg (f # fs) s =
     runFrames edge setg fs (loop edge setg True (fst f) (fst (snd f)) (snd (snd f)) s)"

definition still :: settings where
  \<comment> \<open>a target that does not move, a one-second countdown, a crosshair that follows
      the pointer\<close>
  "still = DEFAULT_SETTINGS\<lparr>countdownSec := 1, recoilSpeed := 0, recoilJitter := 0,
                            cursorMode := ''free''\<rparr>"

definition countdownFrame :: drill where
  \<comment> \<open>the first frame of a session, during the countdown\<close>
  "countdownFrame = loop edgeKept still True 16 (1 / 2) (1 / 2)
                      (startSession still 0 (mounted 600 400))"

definition aimOnTarget :: drill where
  \<comment> \<open>the pointer, not locked, is then put on the target\<close>
  "aimOnTarget = onMouseMove still False 0 0 300 300 countdownFrame"

definition laterFrames :: "(real \<times> real \<times> real) list" where
  \<comment> \<open>300 frames, 16 ms apart, from the end of the countdown on\<close>
  "laterFrames = map (\<lambda>k. (1000 + 16 * real k, 1 / 2, 1 / 2)) [0..<300]"

definition lateSession :: drill where
  "lateSession = runFrames edgeKept still laterFrames aimOnTarget"

definition aboveTop :: drill where
  "aboveTop = (mounted 600 400)\<lparr>target := (580, - 30)\<rparr>"

definition tracking :: "real \<Rightarrow> drill" where
  \<comment> \<open>a session whose start was latched at 1000 ms, with the given last pointer delta\<close>
  "tracking dy = (startSession DEFAULT_SETTINGS 0 (mounted 600 400))
                   \<lparr>countdown := 0, startedAtMs := 1000, sessionEndAtMs := 31000,
                    lastMouseDy := dy\<rparr>"

section \<open>The session summary\<close>

subsection \<open>Closed forms of the summary fields\<close>

lemma avgErrorOf_eq:
  "avgErrorOf es = Some (if es = [] then 0 else foldl (+) 0 es / real (length es))"
  by (simp add: avgErrorOf_def jsdiv_def)

lemma approxHitsOf_eq:
  "approxHitsOf r es n =
     Some (if n = 0 \<or> es = [] then 0
           else mathRound (real (length (filter (\<lambda>e. e \<le> r) es)) * (real n / real (length es))))"
  by (simp add: approxHitsOf_def jsdiv_def)

lemma hitRateOf_eq:
  "hitRateOf r es n =
     Some (if n = 0 then 0
           else if es = [] then 0
           else of_int (mathRound (real (length (filter (\<lambda>e. e \<le> r) es))
                                     * (real n / real (length es)))) / real n)"
  by (simp add: hitRateOf_def approxHitsOf_eq jsdiv_def)

lemma avgCpsOf_eq:
  "avgCpsOf ts =
     Some (if 2 \<le> length ts \<and> 0 < last ts - hd ts
           then real (length ts) / (last ts - hd ts) else 0)"
proof (cases "2 \<le> length ts")
  case True
  then have ne: "ts \<noteq> []" by auto
  have "ts ! (length ts - 1) = last ts" using ne by (simp add: last_conv_nth)
  moreover have "ts ! 0 = hd ts" using ne by (simp add: hd_conv_nth)
  ultimately show ?thesis using True by (simp add: avgCpsOf_def jsdiv_def Let_def)
next
  case False
  then show ?thesis by (simp add: avgCpsOf_def)
qed

lemma sessionSummary_eq:
  "sessionSummary side setg wall s =
     Some \<lparr> endedAt = wall, summaryDurationSec = durationSec setg,
            avgError = toFixed (side AvgErrorField) 1 (the (avgErrorOf (errorHistory s))),
            hitRate = toFixed (side HitRateField) 1
              (the (hitRateOf (targetRadius setg) (errorHistory s) (leftCount s)) * 100),
            shots = leftCount s,
            avgCps = toFixed (side AvgCpsField) 2 (the (avgCpsOf (lTimestamps s))) \<rparr>"
  by (simp add: sessionSummary_def avgErrorOf_eq hitRateOf_eq avgCpsOf_eq)

lemma toFixed_zero: "toFixed up d 0 = 0"
  by (simp add: toFixed_def)

lemma toFixed_midpoint:
  "toFixed True 2 (2 / (812 / 1000 - 172 / 1000)) = 313 / 100"
  "toFixed False 2 (2 / (812 / 1000 - 172 / 1000)) = 312 / 100"
  "toFixed True 1 (300 - 4001 / 10 / 2) = 100"
  "toFixed False 1 (300 - 4001 / 10 / 2) = 999 / 10"
  by (simp_all add: toFixed_def Let_def)

lemma mathRound_mono: "x \<le> y \<Longrightarrow> mathRound x \<le> mathRound y"
  by (simp add: mathRound_def floor_mono)

lemma mathRound_nonneg: "0 \<le> x \<Longrightarrow> 0 \<le> mathRound x"
  by (simp add: mathRound_def)

subsection \<open>Average clicks per second\<close>





subsection \<open>Guards against a zero denominator\<close>

text \<open>
  Claim C9: the summary's mean error is 0 when the error history is empty, the hit rate
  is 0 when no shot was counted, and the average CPS is 0 when fewer than two left-click
  timestamps are held or the span between the first and the last is not positive; none
  of the three computations divides by zero. In the model a division by zero makes
  \<open>sessionSummary\<close> return \<open>None\<close>, so the last part says that it always returns
  \<open>Some\<close> record.
\<close>

theorem summary_zero_guards:
  "\<exists>r. sessionSummary side setg wall s = Some r
     \<and> (errorHistory s = [] \<longrightarrow> avgError r = 0)
     \<and> (leftCount s = 0 \<longrightarrow> hitRate r = 0)
     \<and> (length (lTimestamps s) < 2 \<or> last (lTimestamps s) - hd (lTimestamps s) \<le> 0
          \<longrightarrow> avgCps r = 0)"
  by (auto simp add: sessionSummary_eq avgErrorOf_eq hitRateOf_eq avgCpsOf_eq toFixed_zero)

theorem summary_zero_guards_witness:
  "\<exists>r. sessionSummary tieUp DEFAULT_SETTINGS ''w'' (mounted 600 400) = Some r
     \<and> avgError r = 0 \<and> hitRate r = 0 \<and> avgCps r = 0"
  using summary_zero_guards [of tieUp DEFAULT_SETTINGS "''w''" "mounted 600 400"]
  by (simp add: mounted_def)

subsection \<open>The hit-rate estimate\<close>

text \<open>
  Claim C4 reads: with the error history fixed, the hit rate
  round(hitFrames * s / historyLength) / s does not decrease when the shot count s
  grows. With one hit frame out of two, one shot gives round(0.5) / 1 = 1 and two shots
  give round(1) / 2 = 0.5, so the summary's hit rate drops from 100 to 50.
\<close>

theorem hitRate_not_monotonic_counterexample:
  "hitRateOf 22 [0, 100] 1 = Some 1 \<and> hitRateOf 22 [0, 100] 2 = Some (1 / 2)
   \<and> \<not> (1 \<le> (1 / 2 :: real))
   \<and> map_option hitRate (sessionSummary tieUp DEFAULT_SETTINGS ''w''
        ((mounted 600 400)\<lparr>errorHistory := [0, 100], leftCount := 1\<rparr>)) = Some 100
   \<and> map_option hitRate (sessionSummary tieUp DEFAULT_SETTINGS ''w''
        ((mounted 600 400)\<lparr>errorHistory := [0, 100], leftCount := 2\<rparr>)) = Some 50"
  by (simp add: sessionSummary_eq hitRateOf_eq mathRound_def mounted_def toFixed_def
      DEFAULT_SETTINGS_def Let_def)

text \<open>
  Claim C4 as amended: with the error history fixed, the estimated number of hits
  round(hitFrames * s / historyLength) does not decrease when the shot count s grows
  (the rate, which divides that number by s, may decrease).
\<close>

theorem approxHits_mono:
  assumes "n1 \<le> n2"
  shows "\<exists>a1 a2. approxHitsOf r es n1 = Some a1 \<and> approxHitsOf r es n2 = Some a2 \<and> a1 \<le> a2"
proof (cases "es = [] \<or> n2 = 0")
  case True
  with assms show ?thesis by (auto simp add: approxHitsOf_eq)
next
  case False
  let ?k = "real (length (filter (\<lambda>e. e \<le> r) es))"
  let ?L = "real (length es)"
  from False have L: "0 < ?L" and n2: "n2 \<noteq> 0" and es: "es \<noteq> []" by simp_all
  have q: "real n1 / ?L \<le> real n2 / ?L"
    using assms L by (simp add: divide_right_mono)
  have le: "?k * (real n1 / ?L) \<le> ?k * (real n2 / ?L)"
    using q by (rule mult_left_mono) simp
  show ?thesis
  proof (cases "n1 = 0")
    case True
    have "0 \<le> ?k * (real n2 / ?L)" by simp
    then have "0 \<le> mathRound (?k * (real n2 / ?L))" by (rule mathRound_nonneg)
    with True n2 es show ?thesis by (simp add: approxHitsOf_eq)
  next
    case False
    with n2 es mathRound_mono [OF le] show ?thesis by (simp add: approxHitsOf_eq)
  qed
qed

theorem approxHits_mono_witness:
  "(1::nat) \<le> 2 \<and> approxHitsOf 22 [0, 100] 1 = Some 1 \<and> approxHitsOf 22 [0, 100] 2 = Some 1"
  using approxHits_mono [of 1 2 22 "[0, 100]"]
  by (simp add: approxHitsOf_eq mathRound_def)

section \<open>Starting a session\<close>

text \<open>
  Claim C8: for all settings, \<open>startSession\<close> empties the error history and the path
  history, zeroes the left, middle and right click counters, empties the left-click
  timestamp sequence, and puts the target at the horizontal centre, 75% down the
  playfield (the code takes the floor of 0.75 * height, a whole pixel at most one below
  the exact 75% line). All of this is done by the call itself, hence before any later
  frame.
\<close>

theorem startSession_resets:
  "errorHistory (startSession setg now s) = []
   \<and> pathPoints (startSession setg now s) = []
   \<and> leftCount (startSession setg now s) = 0
   \<and> midCount (startSession setg now s) = 0
   \<and> rightCount (startSession setg now s) = 0
   \<and> lTimestamps (startSession setg now s) = []
   \<and> target (startSession setg now s) = (size_w s / 2, of_int \<lfloor>size_h s * (3 / 4)\<rfloor>)
   \<and> size_h s * (3 / 4) - 1 < snd (target (startSession setg now s))
   \<and> snd (target (startSession setg now s)) \<le> size_h s * (3 / 4)"
  by (simp add: startSession_def) linarith

section \<open>What one frame changes\<close>

lemma sessionClock_keeps:
  "target (sessionClock setg now s) = target s"
  "lastMouseDy (sessionClock setg now s) = lastMouseDy s"
  "size_w (sessionClock setg now s) = size_w s"
  "size_h (sessionClock setg now s) = size_h s"
  "aimRef (sessionClock setg now s) = aimRef s"
  "errorHistory (sessionClock setg now s) = errorHistory s"
  "countdown (sessionClock setg now s) = countdown s"
  "countdownStartMs (sessionClock setg now s) = countdownStartMs s"
  "running (sessionClock setg now s) = running s"
  "clickUpdates (sessionClock setg now s) = clickUpdates s"
  "sessionEnds (sessionClock setg now s) = sessionEnds s"
  "lTimestamps (sessionClock setg now s) = lTimestamps s"
  "leftCount (sessionClock setg now s) = leftCount s"
  by (simp_all add: sessionClock_def Let_def)

lemma sessionClock_startedAtMs:
  "startedAtMs (sessionClock setg now s) =
     (if countdown s \<le> 0 \<and> startedAtMs s = 0 then now else startedAtMs s)"
  by (simp add: sessionClock_def Let_def)

lemma moveTarget_keeps:
  "lastMouseDy (moveTarget setg now rnd1 rnd2 s) = lastMouseDy s"
  "size_w (moveTarget setg now rnd1 rnd2 s) = size_w s"
  "size_h (moveTarget setg now rnd1 rnd2 s) = size_h s"
  "aimRef (moveTarget setg now rnd1 rnd2 s) = aimRef s"
  "errorHistory (moveTarget setg now rnd1 rnd2 s) = errorHistory s"
  "startedAtMs (moveTarget setg now rnd1 rnd2 s) = startedAtMs s"
  "sessionEndAtMs (moveTarget setg now rnd1 rnd2 s) = sessionEndAtMs s"
  "lastSecondShown (moveTarget setg now rnd1 rnd2 s) = lastSecondShown s"
  "pendingEnd (moveTarget setg now rnd1 rnd2 s) = pendingEnd s"
  "countdownStartMs (moveTarget setg now rnd1 rnd2 s) = countdownStartMs s"
  "running (moveTarget setg now rnd1 rnd2 s) = running s"
  "clickUpdates (moveTarget setg now rnd1 rnd2 s) = clickUpdates s"
  "sessionEnds (moveTarget setg now rnd1 rnd2 s) = sessionEnds s"
  "lTimestamps (moveTarget setg now rnd1 rnd2 s) = lTimestamps s"
  "leftCount (moveTarget setg now rnd1 rnd2 s) = leftCount s"
  by (simp_all add: moveTarget_def wrapTarget_def recoilStep_def)

lemma loop_target:
  "target (loop edge setg True now rnd1 rnd2 s) =
     target (moveTarget setg now rnd1 rnd2 (sessionClock setg now s))"
  by (simp add: loop_def recordPath_def recordError_def updateCps_def Let_def)

lemma loop_keeps:
  "lastMouseDy (loop edge setg surface now rnd1 rnd2 s) = lastMouseDy s"
  "size_w (loop edge setg surface now rnd1 rnd2 s) = size_w s"
  "size_h (loop edge setg surface now rnd1 rnd2 s) = size_h s"
  "aimRef (loop edge setg surface now rnd1 rnd2 s) = aimRef s"
  "countdownStartMs (loop edge setg surface now rnd1 rnd2 s) = countdownStartMs s"
  "running (loop edge setg surface now rnd1 rnd2 s) = running s"
  "sessionEnds (loop edge setg surface now rnd1 rnd2 s) = sessionEnds s"
  "leftCount (loop edge setg surface now rnd1 rnd2 s) = leftCount s"
  by (simp_all add: loop_def recordPath_def recordError_def updateCps_def Let_def
      moveTarget_keeps sessionClock_keeps)

lemma loop_clock:
  "startedAtMs (loop edge setg True now rnd1 rnd2 s) = startedAtMs (sessionClock setg now s)"
  "sessionEndAtMs (loop edge setg True now rnd1 rnd2 s) = sessionEndAtMs (sessionClock setg now s)"
  "lastSecondShown (loop edge setg True now rnd1 rnd2 s) = lastSecondShown (sessionClock setg now s)"
  "pendingEnd (loop edge setg True now rnd1 rnd2 s) = pendingEnd (sessionClock setg now s)"
  "countdown (loop edge setg True now rnd1 rnd2 s) = cdLeftOf setg now s"
  by (simp_all add: loop_def recordPath_def recordError_def updateCps_def Let_def
      moveTarget_keeps)

lemma frameError_cong:
  "target s' = target s \<Longrightarrow> aimRef s' = aimRef s \<Longrightarrow> size_w s' = size_w s
     \<Longrightarrow> size_h s' = size_h s \<Longrightarrow> frameError setg s' = frameError setg s"
  by (simp add: frameError_def aimPoint_def)

lemma loop_errorHistory:
  "errorHistory (loop edge setg True now rnd1 rnd2 s) =
     (let e = errorHistory s
                @ [frameError setg (moveTarget setg now rnd1 rnd2 (sessionClock setg now s))]
      in if length e > 300 then tl e else e)"
proof -
  have "frameError setg (recordPath setg (moveTarget setg now rnd1 rnd2 (sessionClock setg now s)))
        = frameError setg (moveTarget setg now rnd1 rnd2 (sessionClock setg now s))"
    by (rule frameError_cong) (simp_all add: recordPath_def Let_def)
  moreover have "errorHistory (recordPath setg (moveTarget setg now rnd1 rnd2 (sessionClock setg now s)))
        = errorHistory s"
    by (simp add: recordPath_def Let_def moveTarget_keeps sessionClock_keeps)
  ultimately show ?thesis
    by (simp add: loop_def recordError_def updateCps_def Let_def)
qed

lemma loop_clickUpdates:
  "length (clickUpdates (loop edge setg True now rnd1 rnd2 s)) = Suc (length (clickUpdates s))"
  by (simp add: loop_def recordPath_def recordError_def updateCps_def Let_def
      moveTarget_keeps sessionClock_keeps)

lemma wrapTarget_target:
  "target (wrapTarget setg rnd2 s) =
     (if snd (target s) < - targetRadius setg
      then (clamp (fst (target s) + (rnd2 * 200 - 100))
              (targetRadius setg) (size_w s - targetRadius setg),
            size_h s + targetRadius setg)
      else target s)"
  by (simp add: wrapTarget_def)

lemma clamp_bounds: "a \<le> b \<Longrightarrow> a \<le> clamp v a b \<and> clamp v a b \<le> b"
  by (simp add: clamp_def)

lemma loop_no_surface: "target (loop edge setg False now rnd1 rnd2 s) = target s"
  by (simp add: loop_def)

lemma hypot_0: "hypot 0 b = \<bar>b\<bar>"
  by (simp add: hypot_def)

lemma last_ring: "last (let e = xs @ [x] in if length e > 300 then tl e else e) = x"
  by (cases xs) (simp_all add: Let_def)

subsection \<open>The example sessions, frame by frame\<close>

lemma quick_simps:
  "countdownSec quick = 0" "durationSec quick = 5" "startGraceMs quick = 250"
  "deadZoneY quick = 1 / 2" "recoilSpeed quick = 220" "recoilJitter quick = 12"
  "compensationGain quick = 1" "targetRadius quick = 22" "cursorMode quick = ''fixed''"
  by (simp_all add: quick_def DEFAULT_SETTINGS_def)

lemma first_frame:
  assumes "0 \<le> t0"
  shows "countdown (firstFrame t0) = 0" and "startedAtMs (firstFrame t0) = t0 + 16"
    and "sessionEndAtMs (firstFrame t0) = t0 + 5016"
    and "lastSecondShown (firstFrame t0) = 5" and "pendingEnd (firstFrame t0) = 0"
    and "running (firstFrame t0)" and "sessionEnds (firstFrame t0) = []"
    and "target (firstFrame t0) = (300, 300 - 11 / 3)" and "lastMouseDy (firstFrame t0) = 0"
    and "size_h (firstFrame t0) = 400" and "size_w (firstFrame t0) = 600"
    and "countdownStartMs (firstFrame t0) = t0"
proof -
  let ?s0 = "startSession quick t0 (mounted 600 400)"
  have s0: "countdown ?s0 = 0" "startedAtMs ?s0 = 0" "lastSecondShown ?s0 = - 1"
    "pendingEnd ?s0 = 0" "running ?s0" "sessionEnds ?s0 = []" "target ?s0 = (300, 300)"
    "lastMouseDy ?s0 = 0" "size_h ?s0 = 400" "size_w ?s0 = 600" "countdownStartMs ?s0 = t0"
    by (simp_all add: startSession_def mounted_def quick_simps)
  have ne: "t0 + 16 \<noteq> 0" using assms by simp
  show "countdown (firstFrame t0) = 0"
    by (simp add: firstFrame_def loop_clock cdLeftOf_def s0 quick_simps)
  show "startedAtMs (firstFrame t0) = t0 + 16"
    by (simp add: firstFrame_def loop_clock sessionClock_startedAtMs s0)
  show "sessionEndAtMs (firstFrame t0) = t0 + 5016"
    by (simp add: firstFrame_def loop_clock sessionClock_def Let_def s0 quick_simps)
  show "lastSecondShown (firstFrame t0) = 5"
    by (simp add: firstFrame_def loop_clock sessionClock_def Let_def s0 quick_simps)
  show "pendingEnd (firstFrame t0) = 0"
    by (simp add: firstFrame_def loop_clock sessionClock_def Let_def s0 quick_simps)
  show "running (firstFrame t0)" "sessionEnds (firstFrame t0) = []"
    "lastMouseDy (firstFrame t0) = 0" "size_h (firstFrame t0) = 400"
    "size_w (firstFrame t0) = 600" "countdownStartMs (firstFrame t0) = t0"
    by (simp_all add: firstFrame_def loop_keeps s0)
  show "target (firstFrame t0) = (300, 300 - 11 / 3)"
    using ne
    by (simp add: firstFrame_def loop_target moveTarget_def wrapTarget_def recoilStep_def
        sessionClock_keeps s0 comp_def frameDy_def vyOf_def upPerSec_def quick_simps)
qed

lemma timedOut_facts:
  "running timedOut" "pendingEnd timedOut = 1" "sessionEnds timedOut = []"
proof -
  note f = first_frame [of 0, simplified]
  show "running timedOut" "sessionEnds timedOut = []"
    by (simp_all add: timedOut_def loop_keeps f)
  show "pendingEnd timedOut = 1"
    by (simp add: timedOut_def loop_clock sessionClock_def Let_def f quick_simps)
qed

lemma afterMove_facts:
  "countdown afterMove = 0" "startedAtMs afterMove = 1016" "target afterMove = (300, 300 - 11 / 3)"
  "lastMouseDy afterMove = 5" "size_h afterMove = 400" "countdownStartMs afterMove = 1000"
  using first_frame [of 1000]
  by (simp_all add: afterMove_def onMouseMove_def Let_def quick_simps)

lemma frameWithMove_facts:
  "countdown frameWithMove = 0" "startedAtMs frameWithMove = 1016"
  "target frameWithMove = (300, 300 - 22 / 3 + 5)"
  "lastMouseDy frameWithMove = 5" "size_h frameWithMove = 400"
proof -
  show "countdown frameWithMove = 0"
    by (simp add: frameWithMove_def loop_clock cdLeftOf_def afterMove_facts quick_simps)
  show "startedAtMs frameWithMove = 1016"
    by (simp add: frameWithMove_def loop_clock sessionClock_startedAtMs afterMove_facts)
  show "lastMouseDy frameWithMove = 5" "size_h frameWithMove = 400"
    by (simp_all add: frameWithMove_def loop_keeps afterMove_facts)
  show "target frameWithMove = (300, 300 - 22 / 3 + 5)"
    by (simp add: frameWithMove_def loop_target moveTarget_def wrapTarget_def recoilStep_def
        sessionClock_keeps sessionClock_startedAtMs afterMove_facts comp_def frameDy_def
        inGrace_def sinceSessionStart_def vyOf_def upPerSec_def quick_simps)
qed

section \<open>Target motion\<close>

subsection \<open>Dead-zone\<close>

text \<open>
  Claim C7: in a running frame in fixed cursor mode whose vertical pointer delta is
  smaller in magnitude than the dead-zone, the compensation added to target.y is exactly
  0, so target.y changes by the recoil term only (after which the wrap rule applies as in
  every frame). The proof does not need the cursor mode: in free mode the compensation
  is 0 anyway.
\<close>

theorem dead_zone:
  assumes "\<bar>lastMouseDy s\<bar> < deadZoneY setg"
  shows "frameDy setg now s = 0 \<and> comp setg now s = 0
     \<and> snd (target (recoilStep setg now rnd1 s)) = snd (target s) - vyOf setg rnd1
     \<and> (countdown s \<le> 0 \<longrightarrow>
          snd (target (loop edge setg True now rnd1 rnd2 s)) =
            (if snd (target s) - vyOf setg rnd1 < - targetRadius setg
             then size_h s + targetRadius setg
             else snd (target s) - vyOf setg rnd1))"
proof -
  have dy: "frameDy setg now' s' = 0" if "lastMouseDy s' = lastMouseDy s" for now' s'
    using assms that by (simp add: frameDy_def)
  have c: "comp setg now' s' = 0" if "lastMouseDy s' = lastMouseDy s" for now' s'
    using dy [OF that] by (simp add: comp_def)
  have "snd (target (loop edge setg True now rnd1 rnd2 s)) =
            (if snd (target s) - vyOf setg rnd1 < - targetRadius setg
             then size_h s + targetRadius setg
             else snd (target s) - vyOf setg rnd1)" if "countdown s \<le> 0"
    using that c [of "sessionClock setg now s" now]
    by (simp add: loop_target moveTarget_def wrapTarget_def recoilStep_def sessionClock_keeps)
  then show ?thesis using dy [of s now] c [of s now] by (simp add: recoilStep_def)
qed

theorem dead_zone_witness:
  "\<bar>lastMouseDy (tracking (1 / 4))\<bar> < deadZoneY DEFAULT_SETTINGS
   \<and> comp DEFAULT_SETTINGS 1250 (tracking (1 / 4)) = 0
   \<and> countdown (tracking (1 / 4)) \<le> 0
   \<and> snd (target (loop edgeKept DEFAULT_SETTINGS True 1250 (1 / 2) (1 / 2) (tracking (1 / 4))))
       = 300 - 11 / 3"
  using dead_zone [where s = "tracking (1 / 4)" and setg = DEFAULT_SETTINGS and now = 1250
      and ?rnd1.0 = "1 / 2" and ?rnd2.0 = "1 / 2" and edge = edgeKept]
  by (simp add: tracking_def startSession_def mounted_def DEFAULT_SETTINGS_def
      vyOf_def upPerSec_def)

subsection \<open>Grace window\<close>

text \<open>
  Claim C6: in a running frame with a downward (positive) vertical pointer delta of at
  least the dead-zone, the delta is zeroed when the time elapsed since session start is
  strictly below startGraceMs and then adds nothing to target.y; when the elapsed time is
  at least startGraceMs the same delta is kept. An upward (negative) delta is never
  suppressed by the grace window. The first three parts speak of the state \<open>s\<close> the
  motion block reads, with the code's \<open>sinceSessionStart\<close> as the elapsed time. The
  last two speak of a whole frame from its beginning: the motion block then reads the
  state the session clock has left, where the elapsed time is \<open>now - startedAtMs\<close>
  once the start has been latched, and target.y after the frame is the old value minus
  the recoil term plus gain times the delta that was kept (in fixed mode), wrapped.
\<close>

theorem grace_window:
  assumes "deadZoneY setg \<le> \<bar>lastMouseDy s\<bar>"
  shows "(0 < lastMouseDy s \<and> sinceSessionStart setg now s < startGraceMs setg \<longrightarrow>
            frameDy setg now s = 0
            \<and> snd (target (recoilStep setg now rnd1 s)) = snd (target s) - vyOf setg rnd1)
     \<and> (0 < lastMouseDy s \<and> startGraceMs setg \<le> sinceSessionStart setg now s \<longrightarrow>
            frameDy setg now s = lastMouseDy s
            \<and> (cursorMode setg = ''fixed'' \<longrightarrow>
                 snd (target (recoilStep setg now rnd1 s)) =
                   snd (target s) - vyOf setg rnd1 + lastMouseDy s * compensationGain setg))
     \<and> (lastMouseDy s < 0 \<longrightarrow> frameDy setg now s = lastMouseDy s)
     \<and> (countdown s \<le> 0 \<and> startedAtMs s \<noteq> 0 \<longrightarrow>
          sinceSessionStart setg now (sessionClock setg now s) = now - startedAtMs s
          \<and> frameDy setg now (sessionClock setg now s) =
              (if 0 < lastMouseDy s \<and> now - startedAtMs s < startGraceMs setg then 0
               else lastMouseDy s))
     \<and> (countdown s \<le> 0 \<longrightarrow>
          snd (target (loop edge setg True now rnd1 rnd2 s)) =
            (let kept = (if 0 < lastMouseDy s
                            \<and> sinceSessionStart setg now (sessionClock setg now s)
                                < startGraceMs setg
                         then 0 else lastMouseDy s);
                 y1 = snd (target s) - vyOf setg rnd1
                      + (if cursorMode setg = ''fixed'' then kept * compensationGain setg
                         else 0)
             in if y1 < - targetRadius setg then size_h s + targetRadius setg else y1))"
proof -
  let ?c = "sessionClock setg now s"
  have dy: "frameDy setg now ?c =
              (if 0 < lastMouseDy s \<and> sinceSessionStart setg now ?c < startGraceMs setg
               then 0 else lastMouseDy s)"
    using assms by (auto simp add: frameDy_def inGrace_def Let_def sessionClock_keeps)
  have frame: "snd (target (loop edge setg True now rnd1 rnd2 s)) =
            (let kept = (if 0 < lastMouseDy s
                            \<and> sinceSessionStart setg now ?c < startGraceMs setg
                         then 0 else lastMouseDy s);
                 y1 = snd (target s) - vyOf setg rnd1
                      + (if cursorMode setg = ''fixed'' then kept * compensationGain setg
                         else 0)
             in if y1 < - targetRadius setg then size_h s + targetRadius setg else y1)"
    if "countdown s \<le> 0"
    using that
    by (simp add: loop_target moveTarget_def wrapTarget_def recoilStep_def comp_def dy
        sessionClock_keeps Let_def)
  have rest: "(0 < lastMouseDy s \<and> sinceSessionStart setg now s < startGraceMs setg \<longrightarrow>
            frameDy setg now s = 0
            \<and> snd (target (recoilStep setg now rnd1 s)) = snd (target s) - vyOf setg rnd1)
     \<and> (0 < lastMouseDy s \<and> startGraceMs setg \<le> sinceSessionStart setg now s \<longrightarrow>
            frameDy setg now s = lastMouseDy s
            \<and> (cursorMode setg = ''fixed'' \<longrightarrow>
                 snd (target (recoilStep setg now rnd1 s)) =
                   snd (target s) - vyOf setg rnd1 + lastMouseDy s * compensationGain setg))
     \<and> (lastMouseDy s < 0 \<longrightarrow> frameDy setg now s = lastMouseDy s)
     \<and> (countdown s \<le> 0 \<and> startedAtMs s \<noteq> 0 \<longrightarrow>
          sinceSessionStart setg now (sessionClock setg now s) = now - startedAtMs s
          \<and> frameDy setg now (sessionClock setg now s) =
              (if 0 < lastMouseDy s \<and> now - startedAtMs s < startGraceMs setg then 0
               else lastMouseDy s))"
    using assms
    by (auto simp add: frameDy_def inGrace_def recoilStep_def comp_def Let_def
        sinceSessionStart_def sessionClock_startedAtMs sessionClock_keeps)
  from rest frame show ?thesis by blast
qed

theorem grace_window_witness:
  "deadZoneY DEFAULT_SETTINGS \<le> \<bar>lastMouseDy (tracking 5)\<bar>
   \<and> 0 < lastMouseDy (tracking 5)
   \<and> sinceSessionStart DEFAULT_SETTINGS 1100 (tracking 5) < startGraceMs DEFAULT_SETTINGS
   \<and> frameDy DEFAULT_SETTINGS 1100 (tracking 5) = 0
   \<and> startGraceMs DEFAULT_SETTINGS \<le> sinceSessionStart DEFAULT_SETTINGS 1250 (tracking 5)
   \<and> frameDy DEFAULT_SETTINGS 1250 (tracking 5) = 5
   \<and> snd (target (recoilStep DEFAULT_SETTINGS 1250 (1 / 2) (tracking 5))) = 300 - 11 / 3 + 5
   \<and> deadZoneY DEFAULT_SETTINGS \<le> \<bar>lastMouseDy (tracking (- 5))\<bar>
   \<and> lastMouseDy (tracking (- 5)) < 0
   \<and> frameDy DEFAULT_SETTINGS 1100 (tracking (- 5)) = - 5
   \<and> countdown (tracking 5) \<le> 0 \<and> startedAtMs (tracking 5) \<noteq> 0
   \<and> frameDy DEFAULT_SETTINGS 1100 (sessionClock DEFAULT_SETTINGS 1100 (tracking 5)) = 0
   \<and> snd (target (loop edgeKept DEFAULT_SETTINGS True 1100 (1 / 2) (1 / 2) (tracking 5)))
       = 300 - 11 / 3
   \<and> snd (target (loop edgeKept DEFAULT_SETTINGS True 1250 (1 / 2) (1 / 2) (tracking 5)))
       = 300 - 11 / 3 + 5
   \<and> snd (target (loop edgeKept DEFAULT_SETTINGS True 1100 (1 / 2) (1 / 2) (tracking (- 5))))
       = 300 - 11 / 3 - 5"
  using grace_window [where setg = DEFAULT_SETTINGS and s = "tracking 5" and now = 1100
      and ?rnd1.0 = "1 / 2" and ?rnd2.0 = "1 / 2" and edge = edgeKept]
    grace_window [where setg = DEFAULT_SETTINGS and s = "tracking 5" and now = 1250
      and ?rnd1.0 = "1 / 2" and ?rnd2.0 = "1 / 2" and edge = edgeKept]
    grace_window [where setg = DEFAULT_SETTINGS and s = "tracking (- 5)" and now = 1100
      and ?rnd1.0 = "1 / 2" and ?rnd2.0 = "1 / 2" and edge = edgeKept]
  by (simp add: tracking_def startSession_def mounted_def DEFAULT_SETTINGS_def
      sinceSessionStart_def sessionClock_startedAtMs vyOf_def upPerSec_def Let_def)

subsection \<open>Wrap\<close>

text \<open>
  Claim C5: when target.y is below -radius at the wrap check, the step sets target.y to
  height + radius and target.x to the old x plus a random offset within [-100, 100],
  clamped to [radius, width - radius]; nothing else moves the target horizontally. In a
  frame the wrap check reads target.y after the recoil and compensation update of that
  same frame, and \<open>rnd2\<close> is the value of \<open>Math.random()\<close>, which lies in [0, 1).
\<close>

theorem target_wrap:
  assumes "0 \<le> rnd2" and "rnd2 < 1"
  shows "(snd (target s) < - targetRadius setg \<longrightarrow>
            target (wrapTarget setg rnd2 s) =
              (clamp (fst (target s) + (rnd2 * 200 - 100))
                 (targetRadius setg) (size_w s - targetRadius setg),
               size_h s + targetRadius setg)
            \<and> - 100 \<le> rnd2 * 200 - 100 \<and> rnd2 * 200 - 100 \<le> 100
            \<and> (targetRadius setg \<le> size_w s - targetRadius setg \<longrightarrow>
                 targetRadius setg \<le> fst (target (wrapTarget setg rnd2 s))
                 \<and> fst (target (wrapTarget setg rnd2 s)) \<le> size_w s - targetRadius setg))
     \<and> (countdown s \<le> 0 \<longrightarrow>
          target (loop edge setg True now rnd1 rnd2 s) =
            target (wrapTarget setg rnd2 (recoilStep setg now rnd1 (sessionClock setg now s))))
     \<and> (\<not> (surface \<and> countdown s \<le> 0
             \<and> snd (target s) - vyOf setg rnd1 + comp setg now (sessionClock setg now s)
                 < - targetRadius setg) \<longrightarrow>
          fst (target (loop edge setg surface now rnd1 rnd2 s)) = fst (target s))"
proof -
  have a: "- 100 \<le> rnd2 * 200 - 100 \<and> rnd2 * 200 - 100 \<le> 100"
    using assms by simp
  have b: "targetRadius setg \<le> fst (target (wrapTarget setg rnd2 s))
             \<and> fst (target (wrapTarget setg rnd2 s)) \<le> size_w s - targetRadius setg"
    if "snd (target s) < - targetRadius setg"
      and "targetRadius setg \<le> size_w s - targetRadius setg"
    using that clamp_bounds [OF that(2)] by (simp add: wrapTarget_target)
  have c: "target (loop edge setg True now rnd1 rnd2 s) =
            target (wrapTarget setg rnd2 (recoilStep setg now rnd1 (sessionClock setg now s)))"
    if "countdown s \<le> 0"
    using that by (simp add: loop_target moveTarget_def sessionClock_keeps)
  have d: "fst (target (loop edge setg surface now rnd1 rnd2 s)) = fst (target s)"
    if "\<not> (surface \<and> countdown s \<le> 0
             \<and> snd (target s) - vyOf setg rnd1 + comp setg now (sessionClock setg now s)
                 < - targetRadius setg)"
  proof (cases surface)
    case False
    then show ?thesis by (simp add: loop_no_surface)
  next
    case True
    show ?thesis
    proof (cases "countdown s \<le> 0")
      case False
      with True show ?thesis
        by (simp add: loop_target moveTarget_def sessionClock_keeps)
    next
      case cd: True
      with True that
      have "\<not> snd (target s) - vyOf setg rnd1 + comp setg now (sessionClock setg now s)
                 < - targetRadius setg" by simp
      with True cd show ?thesis
        by (simp add: c wrapTarget_target recoilStep_def sessionClock_keeps)
    qed
  qed
  show ?thesis using a b c d by (simp add: wrapTarget_target)
qed

theorem target_wrap_witness:
  "(0::real) \<le> 3 / 4 \<and> (3 / 4 :: real) < 1
   \<and> snd (target aboveTop) < - targetRadius DEFAULT_SETTINGS
   \<and> targetRadius DEFAULT_SETTINGS \<le> size_w aboveTop - targetRadius DEFAULT_SETTINGS
   \<and> target (wrapTarget DEFAULT_SETTINGS (3 / 4) aboveTop) = (578, 422)
   \<and> countdown aboveTop \<le> 0
   \<and> fst (target (loop edgeKept DEFAULT_SETTINGS False 0 (1 / 2) (3 / 4) aboveTop)) = 580"
  using target_wrap [where ?rnd2.0 = "3 / 4" and s = aboveTop and setg = DEFAULT_SETTINGS
      and now = 0 and ?rnd1.0 = "1 / 2" and surface = False and edge = edgeKept]
  by (simp add: aboveTop_def mounted_def DEFAULT_SETTINGS_def clamp_def)

subsection \<open>A frame without pointer motion\<close>

text \<open>
  Claim C3: in a running frame before which no pointer motion event arrived since the
  previous frame, the raw compensation input is zero, so in fixed mode target.y changes
  by exactly -(recoil speed) * (1/60). The code keeps the delta of the last motion event
  in \<open>lastMouseDy\<close> and no frame clears it: after one motion of 5 px, the frame that
  follows a frame without any further event still adds 5 * gain to target.y.
\<close>

theorem stale_pointer_delta:
  "lastMouseDy frameWithMove = 5
   \<and> snd (target frameWithMove) = 300 - 22 / 3 + 5
   \<and> vyOf quick (1 / 2) = 11 / 3
   \<and> snd (target (loop edgeKept quick True 1332 (1 / 2) (1 / 2) frameWithMove))
       = snd (target frameWithMove) - vyOf quick (1 / 2) + 5 * compensationGain quick
   \<and> snd (target (loop edgeKept quick True 1332 (1 / 2) (1 / 2) frameWithMove))
       \<noteq> snd (target frameWithMove) - vyOf quick (1 / 2)"
  by (simp add: loop_target moveTarget_def wrapTarget_def recoilStep_def
        sessionClock_keeps sessionClock_startedAtMs frameWithMove_facts comp_def frameDy_def
        inGrace_def sinceSessionStart_def vyOf_def upPerSec_def quick_simps)

section \<open>Error samples during the countdown\<close>

subsection \<open>A long run of frames over a resting target\<close>

lemma still_simps:
  "countdownSec still = 1" "recoilSpeed still = 0" "recoilJitter still = 0"
  "cursorMode still = ''free''" "targetRadius still = 22"
  by (simp_all add: still_def DEFAULT_SETTINGS_def)

lemma foldl_zeros: "foldl (+) (a::real) (replicate n 0) = a"
  by (induction n) simp_all

lemma still_frame:
  assumes "target s = (300, 300)" and "aimRef s = (300, 300)"
  shows "target (loop edge still True now rnd1 rnd2 s) = (300, 300)"
    and "aimRef (loop edge still True now rnd1 rnd2 s) = (300, 300)"
    and "errorHistory (loop edge still True now rnd1 rnd2 s) =
           (let e = errorHistory s @ [0] in if length e > 300 then tl e else e)"
proof -
  let ?m = "moveTarget still now rnd1 rnd2 (sessionClock still now s)"
  show t: "target (loop edge still True now rnd1 rnd2 s) = (300, 300)"
    using assms(1)
    by (simp add: loop_target moveTarget_def wrapTarget_def recoilStep_def comp_def
        vyOf_def upPerSec_def sessionClock_keeps still_simps)
  show "aimRef (loop edge still True now rnd1 rnd2 s) = (300, 300)"
    using assms(2) by (simp add: loop_keeps)
  have "target ?m = (300, 300)" using t by (simp add: loop_target)
  moreover have "aimRef ?m = (300, 300)"
    using assms(2) by (simp add: moveTarget_keeps sessionClock_keeps)
  ultimately have "frameError still ?m = 0"
    by (simp add: frameError_def aimPoint_def still_simps hypot_def)
  then show "errorHistory (loop edge still True now rnd1 rnd2 s) =
           (let e = errorHistory s @ [0] in if length e > 300 then tl e else e)"
    by (simp add: loop_errorHistory)
qed

lemma still_run:
  assumes "target s = (300, 300)" and "aimRef s = (300, 300)"
    and "length (errorHistory s) \<le> 300"
  shows "errorHistory (runFrames edge still fs s) =
           drop (length (errorHistory s) + length fs - 300)
             (errorHistory s @ replicate (length fs) 0)"
  using assms
proof (induction fs arbitrary: s)
  case Nil
  then show ?case by simp
next
  case (Cons f fs)
  let ?s1 = "loop edge still True (fst f) (fst (snd f)) (snd (snd f)) s"
  let ?h = "errorHistory s"
  note fr = still_frame [OF Cons.prems(1,2), of edge "fst f" "fst (snd f)" "snd (snd f)"]
  show ?case
  proof (cases "length ?h < 300")
    case True
    then have h1: "errorHistory ?s1 = ?h @ [0]" by (simp add: fr(3) Let_def)
    then have "length (errorHistory ?s1) \<le> 300" using True by simp
    from Cons.IH [OF fr(1) fr(2) this] h1 show ?thesis
      by (simp add: replicate_app_Cons_same)
  next
    case False
    with Cons.prems(3) have len: "length ?h = 300" by simp
    then have ne: "?h \<noteq> []" by auto
    have h1: "errorHistory ?s1 = tl ?h @ [0]" using len ne by (simp add: fr(3) Let_def)
    then have l1: "length (errorHistory ?s1) = 300" using len by simp
    then have "length (errorHistory ?s1) \<le> 300" by simp
    from Cons.IH [OF fr(1) fr(2) this] h1 l1
    have "errorHistory (runFrames edge still (f # fs) s) =
            drop (length fs) (tl ?h @ replicate (Suc (length fs)) 0)"
      by (simp add: replicate_app_Cons_same)
    also have "tl ?h @ replicate (Suc (length fs)) 0
                 = drop 1 (?h @ replicate (Suc (length fs)) 0)"
      using ne by (cases "errorHistory s") simp_all
    finally show ?thesis using len by simp
  qed
qed

lemma countdownFrame_facts:
  "errorHistory countdownFrame = [100]" "target countdownFrame = (300, 300)"
  "size_w countdownFrame = 600" "size_h countdownFrame = 400"
  "0 < countdown (startSession still 0 (mounted 600 400))"
proof -
  let ?s0 = "startSession still 0 (mounted 600 400)"
  have s0: "countdown ?s0 = 1" "target ?s0 = (300, 300)" "aimRef ?s0 = (300, 200)"
    "errorHistory ?s0 = []" "size_w ?s0 = 600" "size_h ?s0 = 400"
    by (simp_all add: startSession_def mounted_def still_simps)
  show "0 < countdown ?s0" by (simp add: s0)
  show t: "target countdownFrame = (300, 300)"
    by (simp add: countdownFrame_def loop_target moveTarget_def sessionClock_keeps s0)
  show "size_w countdownFrame = 600" "size_h countdownFrame = 400"
    by (simp_all add: countdownFrame_def loop_keeps s0)
  have "frameError still (moveTarget still 16 (1 / 2) (1 / 2) (sessionClock still 16 ?s0)) = 100"
    by (simp add: frameError_def aimPoint_def still_simps moveTarget_def sessionClock_keeps
        s0 hypot_0)
  then show "errorHistory countdownFrame = [100]"
    by (simp add: countdownFrame_def loop_errorHistory s0)
qed

lemma lateSession_history: "errorHistory lateSession = replicate 300 0"
proof -
  have a: "target aimOnTarget = (300, 300)" "aimRef aimOnTarget = (300, 300)"
    "errorHistory aimOnTarget = [100]"
    by (simp_all add: aimOnTarget_def onMouseMove_def still_simps clamp_def Let_def
        countdownFrame_facts)
  have l: "length laterFrames = 300" by (simp add: laterFrames_def)
  have "length (errorHistory aimOnTarget) \<le> 300" by (simp add: a)
  from still_run [OF a(1) a(2) this, of edgeKept laterFrames]
  show ?thesis by (simp add: lateSession_def a l)
qed

subsection \<open>Samples of the countdown in the mean error\<close>

text \<open>
  Claim C10 reads: every executed frame of the loop, also one during the countdown,
  appends an error sample (the distance from the target to the aim point) to the error
  history and calls the click-state callback; only the motion of the target waits for
  the countdown to reach zero, so the mean error of the summary includes the samples
  taken during the countdown. The error history keeps the 300 latest samples only. In
  the session below the countdown frame records the sample 100; the pointer is then put
  on the target, and after 300 further frames the history holds 300 samples of 0: the
  countdown sample is gone and the summary's mean error is 0.
\<close>

theorem countdown_sample_evicted_counterexample:
  "0 < countdown (startSession still 0 (mounted 600 400))
   \<and> errorHistory countdownFrame = [100]
   \<and> length laterFrames = 300
   \<and> errorHistory lateSession = replicate 300 0
   \<and> 100 \<notin> set (errorHistory lateSession)
   \<and> map_option avgError (sessionSummary tieUp still ''w'' lateSession) = Some 0
   \<and> map_option avgError (sessionSummary tieDown still ''w'' lateSession) = Some 0"
  by (simp add: countdownFrame_facts lateSession_history laterFrames_def sessionSummary_eq
      avgErrorOf_eq foldl_zeros toFixed_zero)

text \<open>
  Claim C10 as amended: every executed frame of the loop, also one during the countdown,
  appends an error sample (the distance from the target to the aim point) to the error
  history and calls the click-state callback; only the motion of the target waits for
  the countdown to reach zero. The history keeps the 300 latest samples, a frame that
  finds fewer than 300 drops none, and the mean error of the summary is the mean of the
  samples held when the session ends: it includes a sample taken during the countdown
  as long as that sample is still held. A frame is executed when both canvases are
  mounted.
\<close>

theorem loop_samples_every_frame:
  "errorHistory (loop edge setg True now rnd1 rnd2 s) =
     (let e = errorHistory s
                @ [frameError setg (moveTarget setg now rnd1 rnd2 (sessionClock setg now s))]
      in if length e > 300 then tl e else e)
   \<and> length (clickUpdates (loop edge setg True now rnd1 rnd2 s)) = Suc (length (clickUpdates s))
   \<and> (0 < countdown s \<longrightarrow>
        target (loop edge setg True now rnd1 rnd2 s) = target s
        \<and> last (errorHistory (loop edge setg True now rnd1 rnd2 s)) = frameError setg s
        \<and> (errorHistory s = [] \<longrightarrow>
             map_option avgError
               (sessionSummary side setg wall (loop edge setg True now rnd1 rnd2 s))
               = Some (toFixed (side AvgErrorField) 1 (frameError setg s))))
   \<and> (length (errorHistory s) < 300 \<longrightarrow>
        errorHistory (loop edge setg True now rnd1 rnd2 s) =
          errorHistory s
            @ [frameError setg (moveTarget setg now rnd1 rnd2 (sessionClock setg now s))])
   \<and> map_option avgError (sessionSummary side setg wall s) =
        Some (toFixed (side AvgErrorField) 1
               (if errorHistory s = [] then 0
                else foldl (+) 0 (errorHistory s) / real (length (errorHistory s))))"
proof -
  have fe: "frameError setg (moveTarget setg now rnd1 rnd2 (sessionClock setg now s))
              = frameError setg s" if "0 < countdown s"
    by (rule frameError_cong)
      (use that in \<open>simp_all add: moveTarget_def sessionClock_keeps\<close>)
  have t: "target (loop edge setg True now rnd1 rnd2 s) = target s" if "0 < countdown s"
    using that by (simp add: loop_target moveTarget_def sessionClock_keeps)
  have l: "last (errorHistory (loop edge setg True now rnd1 rnd2 s)) = frameError setg s"
    if "0 < countdown s"
    unfolding loop_errorHistory fe [OF that] by (rule last_ring)
  have a: "map_option avgError
             (sessionSummary side setg wall (loop edge setg True now rnd1 rnd2 s))
               = Some (toFixed (side AvgErrorField) 1 (frameError setg s))"
    if "0 < countdown s" and "errorHistory s = []"
    using fe [OF that(1)] that(2)
    by (simp add: sessionSummary_eq avgErrorOf_eq loop_errorHistory Let_def)
  have k: "errorHistory (loop edge setg True now rnd1 rnd2 s) =
          errorHistory s
            @ [frameError setg (moveTarget setg now rnd1 rnd2 (sessionClock setg now s))]"
    if "length (errorHistory s) < 300"
    using that by (simp add: loop_errorHistory Let_def)
  have m: "map_option avgError (sessionSummary side setg wall s) =
        Some (toFixed (side AvgErrorField) 1
               (if errorHistory s = [] then 0
                else foldl (+) 0 (errorHistory s) / real (length (errorHistory s))))"
    by (simp add: sessionSummary_eq avgErrorOf_eq)
  show ?thesis using t l a k m by (simp add: loop_errorHistory loop_clickUpdates)
qed

theorem loop_samples_every_frame_witness:
  "0 < countdown (startSession DEFAULT_SETTINGS 0 (mounted 600 400))
   \<and> errorHistory (startSession DEFAULT_SETTINGS 0 (mounted 600 400)) = []
   \<and> length (errorHistory (startSession DEFAULT_SETTINGS 0 (mounted 600 400))) < 300
   \<and> errorHistory (loop edgeKept DEFAULT_SETTINGS True 16 (1 / 2) (1 / 2)
        (startSession DEFAULT_SETTINGS 0 (mounted 600 400))) = [100]
   \<and> map_option avgError (sessionSummary tieDown DEFAULT_SETTINGS ''w''
        (loop edgeKept DEFAULT_SETTINGS True 16 (1 / 2) (1 / 2)
           (startSession DEFAULT_SETTINGS 0 (mounted 600 400)))) = Some 100"
  using loop_samples_every_frame [where edge = edgeKept and setg = DEFAULT_SETTINGS
      and now = 16 and ?rnd1.0 = "1 / 2" and ?rnd2.0 = "1 / 2"
      and s = "startSession DEFAULT_SETTINGS 0 (mounted 600 400)" and side = tieDown
      and wall = "''w''"]
  by (simp add: startSession_def mounted_def DEFAULT_SETTINGS_def frameError_def aimPoint_def
      moveTarget_def sessionClock_def hypot_0 toFixed_def Let_def)

section \<open>Ending a session more than once\<close>

lemma triggers_guard_on_running:
  "\<not> running s \<Longrightarrow>
     onKeySpace side setg now wall s = startSession setg now s
     \<and> onButtonClick side setg now wall s = startSession setg now s
     \<and> sessionEnds (startSession setg now s) = sessionEnds s
     \<and> onVis side setg wall hidden s = s"
  by (simp add: onKeySpace_def onButtonClick_def onVis_def startSession_def)

text \<open>
  Claim C2: \<open>endSession\<close> is idempotent, a call in a state that is already idle or
  ended is a no-op, and the session-end callback is invoked exactly once per session.
  The space key, the button and the visibility handler call \<open>endSession\<close> only while
  \<open>running\<close> holds; the timer started by the frame loop when the time is up calls it
  without that test, and \<open>endSession\<close> has no guard of its own. In the trace below the
  five seconds run out and the frame loop starts the timer, the space key ends the
  session before the timer fires, and the timer then calls \<open>endSession\<close> in the ended
  state: the state changes and a second summary is emitted for the same session.
\<close>

theorem timer_ends_session_twice:
  "running timedOut \<and> pendingEnd timedOut = 1 \<and> sessionEnds timedOut = []
   \<and> \<not> running (onKeySpace tieUp quick 5017 ''a'' timedOut)
   \<and> length (sessionEnds (onKeySpace tieUp quick 5017 ''a'' timedOut)) = 1
   \<and> fireTimeout tieUp quick ''b'' (onKeySpace tieUp quick 5017 ''a'' timedOut)
       \<noteq> onKeySpace tieUp quick 5017 ''a'' timedOut
   \<and> length (sessionEnds
        (fireTimeout tieUp quick ''b'' (onKeySpace tieUp quick 5017 ''a'' timedOut))) = 2"
proof -
  let ?e = "onKeySpace tieUp quick 5017 ''a'' timedOut"
  have e: "?e = endSession tieUp quick ''a'' timedOut"
    by (simp add: onKeySpace_def timedOut_facts)
  have e1: "\<not> running ?e" "length (sessionEnds ?e) = 1" "pendingEnd ?e = 1"
    by (simp_all add: e endSession_def timedOut_facts)
  have f: "fireTimeout tieUp quick ''b'' ?e = endSession tieUp quick ''b'' (?e\<lparr>pendingEnd := 0\<rparr>)"
    by (simp add: fireTimeout_def e1)
  have f2: "length (sessionEnds (fireTimeout tieUp quick ''b'' ?e)) = 2"
    unfolding f by (simp add: endSession_def e1)
  from f2 e1(2) have "fireTimeout tieUp quick ''b'' ?e \<noteq> ?e" by auto
  with e1 f2 timedOut_facts show ?thesis by simp
qed

end
